theory Spec2Isabelle
  imports Main "HOL-Library.Word"
begin

section \<open>Basic types\<close>

text \<open>
  Go's \<open>byte\<close> is an 8-bit word and \<open>[]byte\<close> a list of them. Go's \<open>int\<close> is a signed
  machine integer (64 bits on the platforms the library targets); \<open>sint\<close> reads its value.
  \<open>*big.Int\<close> is a pointer to an unbounded integer: \<open>int option\<close>, with \<open>None\<close> for nil.
\<close>

type_synonym byte = "8 word"
type_synonym bytes = "byte list"
type_synonym go_int = "64 word"

text \<open>
  The error values the package creates itself, one constructor per
  \<open>errors.New\<close> / \<open>fmt.Errorf\<close> site, and \<open>ExternalError\<close> for an error handed back by
  a collaborator (the RPC client or a go-ethereum function), carrying its message.
\<close>

datatype error =
    ErrParamsUnset
  | ErrWalletNil
  | ErrDataTooShort
  | ErrOutputInvalidType
  | ErrInvalidSigLength nat
  | ErrInvalidSigType
  | ErrCanNotEcrecover error
  | ExternalError string

text \<open>
  An index or a slice expression out of range and a nil dereference panic in Go, so a
  function that can do either returns an outcome: its results, or a panic.
\<close>

datatype 'a outcome = Returns 'a | Panics

section \<open>wallet.go: transaction options and the fee helpers\<close>

record TxOpts =
  Nonce :: "go_int option"
  GasLimit :: "go_int option"
  GasPrice :: "int option"
  GasTipCap :: "int option"
  GasFeeCap :: "int option"

text \<open>\<open>GetOldFee\<close>: \<open>GasPrice * GasLimit\<close> when both are set, else the error.\<close>

definition GetOldFee :: "TxOpts \<Rightarrow> error + int" where
  "GetOldFee t =
     (if GasPrice t \<noteq> None \<and> GasLimit t \<noteq> None
      then Inr (the (GasPrice t) * sint (the (GasLimit t)))
      else Inl ErrParamsUnset)"

text \<open>\<open>GetNewFee\<close>: \<open>totalCap = GasTipCap * 2 + GasFeeCap\<close>, then \<open>totalCap * GasLimit\<close>.\<close>

definition GetNewFee :: "TxOpts \<Rightarrow> error + int" where
  "GetNewFee t =
     (if GasTipCap t \<noteq> None \<and> GasFeeCap t \<noteq> None \<and> GasLimit t \<noteq> None
      then (let totalCap = the (GasTipCap t) * 2 + the (GasFeeCap t)
            in Inr (totalCap * sint (the (GasLimit t))))
      else Inl ErrParamsUnset)"

subsection \<open>The collaborators of the wallet\<close>

text \<open>
  \<open>common.Address\<close> is a 20-byte array. \<open>ethrpc.T\<close> is the request record of the RPC
  client; the code fills \<open>From\<close>, \<open>To\<close>, \<open>Value\<close> and \<open>Data\<close> and leaves the
  other fields at their zero values. \<open>types.DynamicFeeTx\<close> is the unsigned transaction
  the signer builds, with the fields its literal sets.
\<close>

type_synonym address = bytes

record ethrpc_T =
  T_From :: string
  T_To :: string
  T_Gas :: go_int
  T_GasPrice :: "int option"
  T_Value :: "int option"
  T_Data :: string
  T_Nonce :: go_int

record DynamicFeeTx =
  tx_Nonce :: "64 word"
  tx_GasTipCap :: "int option"
  tx_GasFeeCap :: "int option"
  tx_Gas :: "64 word"
  tx_To :: "address option"
  tx_Value :: "int option"
  tx_Data :: bytes

text \<open>
  Every call that leaves the process or uses the private key is logged as an event, in
  the order the code makes it: the four RPC methods the wallet calls and the signing
  primitive \<open>types.SignNewTx\<close> (with the chain id of the signer it is given).
\<close>

datatype event =
    EvGetTransactionCount string string
  | EvEstimateGas ethrpc_T
  | EvGasPrice
  | EvSignNewTx "int option" DynamicFeeTx
  | EvSendRawTransaction string

text \<open>
  The RPC client \<open>*ethrpc.EthRPC\<close> is outside the package: a record of the answers it
  gives, each a value or an error. Any behaviour of the node is some such record.
\<close>

record EthRPC =
  EthGetTransactionCount :: "string \<Rightarrow> string \<Rightarrow> error + go_int"
  EthEstimateGas :: "ethrpc_T \<Rightarrow> error + go_int"
  EthGasPrice :: "error + int"
  EthSendRawTransaction :: "string \<Rightarrow> error + string"

text \<open>
  The go-ethereum functions on the path of a transaction, outside the package as well:
  \<open>Address.String\<close>, \<open>hexutil.Encode\<close>, \<open>types.SignNewTx\<close> with
  \<open>types.LatestSignerForChainID\<close>, and \<open>Transaction.MarshalBinary\<close>. \<open>'k\<close> is the
  private key, \<open>'tx\<close> the signed transaction.
\<close>

record ('k, 'tx) geth =
  Address_String :: "address \<Rightarrow> string"
  hexutil_Encode :: "bytes \<Rightarrow> string"
  SignNewTx :: "'k \<Rightarrow> int option \<Rightarrow> DynamicFeeTx \<Rightarrow> error + 'tx"
  MarshalBinary :: "'tx \<Rightarrow> error + bytes"

record 'k Signer =
  Signer_Address :: address
  key :: 'k

record 'k Wallet =
  Address :: address
  ChainID :: "int option"
  Signer :: "'k Signer"
  Client :: EthRPC

definition GetAddress :: "('k, 'tx) geth \<Rightarrow> 'k Wallet \<Rightarrow> string" where
  "GetAddress G w = Address_String G (Address w)"

definition GetPendingNonce ::
  "('k, 'tx) geth \<Rightarrow> 'k Wallet \<Rightarrow> (error + go_int) \<times> event list" where
  "GetPendingNonce G w =
     (EthGetTransactionCount (Client w) (GetAddress G w) ''pending'',
      [EvGetTransactionCount (GetAddress G w) ''pending''])"

subsection \<open>InitTxOpts\<close>

text \<open>
  \<open>InitTxOpts\<close> works on the record \<open>opts\<close> points to (a fresh empty one when the
  pointer is nil) and updates it in place, so the model returns the record as the call
  leaves it, also when the call fails, together with the error (\<open>None\<close> for nil; the
  pointer returned is \<open>opts\<close> exactly when the error is nil) and the events. Each of the
  four \<open>if\<close> blocks of the function is one step below.
\<close>

definition TxOpts_zero :: TxOpts where
  "TxOpts_zero =
     \<lparr>Nonce = None, GasLimit = None, GasPrice = None, GasTipCap = None, GasFeeCap = None\<rparr>"

definition init_Nonce ::
  "('k, 'tx) geth \<Rightarrow> 'k Wallet \<Rightarrow> TxOpts \<Rightarrow> TxOpts \<times> error option \<times> event list" where
  "init_Nonce G w opts =
     (if Nonce opts = None then
        (case GetPendingNonce G w of
           (Inl err, tr) \<Rightarrow> (opts, Some err, tr)
         | (Inr nonce, tr) \<Rightarrow> (opts\<lparr>Nonce := Some nonce\<rparr>, None, tr))
      else (opts, None, []))"

definition init_GasLimit ::
  "('k, 'tx) geth \<Rightarrow> 'k Wallet \<Rightarrow> address \<Rightarrow> int option \<Rightarrow> bytes \<Rightarrow> TxOpts \<Rightarrow>
     TxOpts \<times> error option \<times> event list" where
  "init_GasLimit G w to amount data opts =
     (if GasLimit opts = None then
        (let ethrpcTx = \<lparr>T_From = Address_String G (Address w),
                          T_To = Address_String G to,
                          T_Gas = 0, T_GasPrice = None,
                          T_Value = amount,
                          T_Data = hexutil_Encode G data,
                          T_Nonce = 0\<rparr>
         in case EthEstimateGas (Client w) ethrpcTx of
              Inl err \<Rightarrow> (opts, Some err, [EvEstimateGas ethrpcTx])
            | Inr gasLimit \<Rightarrow> (opts\<lparr>GasLimit := Some gasLimit\<rparr>, None, [EvEstimateGas ethrpcTx]))
      else (opts, None, []))"

definition init_GasPrice :: "'k Wallet \<Rightarrow> TxOpts \<Rightarrow> TxOpts \<times> error option \<times> event list" where
  "init_GasPrice w opts =
     (if GasPrice opts = None then
        (case EthGasPrice (Client w) of
           Inl err \<Rightarrow> (opts, Some err, [EvGasPrice])
         | Inr gasPrice \<Rightarrow> (opts\<lparr>GasPrice := Some gasPrice\<rparr>, None, [EvGasPrice]))
      else (opts, None, []))"

definition init_Caps :: "TxOpts \<Rightarrow> TxOpts" where
  "init_Caps opts =
     (if GasTipCap opts = None \<or> GasFeeCap opts = None
      then opts\<lparr>GasTipCap := GasPrice opts, GasFeeCap := GasPrice opts\<rparr>
      else opts)"

definition InitTxOpts ::
  "('k, 'tx) geth \<Rightarrow> 'k Wallet \<Rightarrow> address \<Rightarrow> int option \<Rightarrow> bytes \<Rightarrow> TxOpts option \<Rightarrow>
     TxOpts \<times> error option \<times> event list" where
  "InitTxOpts G w to amount data opts0 =
     (let opts = (case opts0 of None \<Rightarrow> TxOpts_zero | Some p \<Rightarrow> p) in
      case init_Nonce G w opts of
        (opts, Some err, tr1) \<Rightarrow> (opts, Some err, tr1)
      | (opts, None, tr1) \<Rightarrow>
          (case init_GasLimit G w to amount data opts of
             (opts, Some err, tr2) \<Rightarrow> (opts, Some err, tr1 @ tr2)
           | (opts, None, tr2) \<Rightarrow>
               (case init_GasPrice w opts of
                  (opts, Some err, tr3) \<Rightarrow> (opts, Some err, tr1 @ tr2 @ tr3)
                | (opts, None, tr3) \<Rightarrow> (init_Caps opts, None, tr1 @ tr2 @ tr3))))"

section \<open>signer.go: signing a dynamic-fee transaction\<close>

text \<open>
  \<open>SignTx\<close> builds the \<open>DynamicFeeTx\<close> literal and hands it to \<open>types.SignNewTx\<close>
  with the signer's key. \<open>uint64(nonce)\<close> and \<open>uint64(gasLimit)\<close> keep the 64 bits.
\<close>

definition SignTx ::
  "('k, 'tx) geth \<Rightarrow> 'k Signer \<Rightarrow> go_int \<Rightarrow> address \<Rightarrow> int option \<Rightarrow> go_int \<Rightarrow>
     int option \<Rightarrow> int option \<Rightarrow> bytes \<Rightarrow> int option \<Rightarrow> (error + 'tx) \<times> event list" where
  "SignTx G s nonce to amount gasLimit gasTipCap gasFeeCap data chainID =
     (let baseTx = \<lparr>tx_Nonce = nonce,
                     tx_GasTipCap = gasTipCap,
                     tx_GasFeeCap = gasFeeCap,
                     tx_Gas = gasLimit,
                     tx_To = Some to,
                     tx_Value = amount,
                     tx_Data = data\<rparr>
      in (SignNewTx G (key s) chainID baseTx, [EvSignNewTx chainID baseTx]))"

subsection \<open>SendTx\<close>

text \<open>
  \<open>SendTx\<close> resolves the options, replaces a nil amount by zero, signs, marshals and
  broadcasts. It returns the transaction hash or the first error, and the events.
  \<open>*opts.Nonce\<close> and \<open>*opts.GasLimit\<close> are read after a successful \<open>InitTxOpts\<close>,
  which leaves both set.
\<close>

definition SendTx ::
  "('k, 'tx) geth \<Rightarrow> 'k Wallet \<Rightarrow> address \<Rightarrow> int option \<Rightarrow> bytes \<Rightarrow> TxOpts option \<Rightarrow>
     (error + string) \<times> event list" where
  "SendTx G w to amount data opts0 =
     (case InitTxOpts G w to amount data opts0 of
        (opts, Some err, tr) \<Rightarrow> (Inl err, tr)
      | (opts, None, tr) \<Rightarrow>
          (let amount = (if amount = None then Some 0 else amount) in
           case SignTx G (Signer w) (the (Nonce opts)) to amount (the (GasLimit opts))
                  (GasTipCap opts) (GasFeeCap opts) data (ChainID w) of
             (Inl err, tr2) \<Rightarrow> (Inl err, tr @ tr2)
           | (Inr tx, tr2) \<Rightarrow>
               (case MarshalBinary G tx of
                  Inl err \<Rightarrow> (Inl err, tr @ tr2)
                | Inr raw \<Rightarrow>
                    (EthSendRawTransaction (Client w) (hexutil_Encode G raw),
                     tr @ tr2 @ [EvSendRawTransaction (hexutil_Encode G raw)]))))"

section \<open>contract.go: the contract object\<close>

text \<open>
  \<open>abi.ABI\<close> and \<open>abi.Method\<close> belong to go-ethereum. The contract only calls their
  methods, so the ABI is the record of those methods: \<open>Pack\<close>, \<open>MethodById\<close>,
  \<open>Unpack\<close> (which returns a list and an error, and the code keeps both) and
  \<open>UnpackIntoInterface\<close> (which writes through its first argument: the model returns
  what it wrote). \<open>'v\<close> is Go's \<open>interface{}\<close>, \<open>'args\<close> is \<open>abi.Arguments\<close>.
\<close>

record 'args Method =
  Name :: string
  Inputs :: 'args

record ('v, 'args) ABI =
  Pack :: "string \<Rightarrow> 'v list \<Rightarrow> error + bytes"
  MethodById :: "bytes \<Rightarrow> error + 'args Method"
  Unpack :: "string \<Rightarrow> bytes \<Rightarrow> 'v list \<times> error option"
  UnpackIntoInterface :: "'v \<Rightarrow> string \<Rightarrow> bytes \<Rightarrow> 'v \<times> error option"

record ('k, 'v, 'args) Contract =
  Contract_Address :: address
  ABI :: "('v, 'args) ABI"
  Wallet :: "'k Wallet option"
  Contract_Client :: "EthRPC option"

text \<open>
  \<open>NewContract\<close> reads \<open>wallet.Address\<close> and \<open>wallet.Client\<close>, so a nil wallet is a
  nil dereference: a panic. \<open>abi.JSON\<close> is go-ethereum's parser. A contract with a nil
  wallet can only be written as a struct literal.
\<close>

definition NewContract ::
  "(string \<Rightarrow> error + ('v, 'args) ABI) \<Rightarrow> address \<Rightarrow> string \<Rightarrow> string \<Rightarrow> 'k Wallet option \<Rightarrow>
     (error + ('k, 'v, 'args) Contract) outcome" where
  "NewContract abi_JSON address abiStr rpc wallet =
     (case wallet of
        None \<Rightarrow> Panics
      | Some w \<Rightarrow>
          (case abi_JSON abiStr of
             Inl err \<Rightarrow> Returns (Inl err)
           | Inr Abi \<Rightarrow>
               Returns (Inr \<lparr>Contract_Address = address, ABI = Abi, Wallet = Some w,
                             Contract_Client = Some (Client w)\<rparr>)))"

definition EncodeData ::
  "('k, 'v, 'args) Contract \<Rightarrow> string \<Rightarrow> 'v list \<Rightarrow> error + bytes" where
  "EncodeData c methodName args =
     (case Pack (ABI c) methodName args of
        Inl err \<Rightarrow> Inl err
      | Inr data \<Rightarrow> Inr data)"

text \<open>\<open>ExecMethod\<close>: the wallet check, the encoding, then \<open>SendTx\<close> with \<open>big.NewInt(0)\<close>.\<close>

definition ExecMethod ::
  "('k, 'tx) geth \<Rightarrow> ('k, 'v, 'args) Contract \<Rightarrow> string \<Rightarrow> TxOpts option \<Rightarrow> 'v list \<Rightarrow>
     (error + string) \<times> event list" where
  "ExecMethod G c methodName opts args =
     (case Wallet c of
        None \<Rightarrow> (Inl ErrWalletNil, [])
      | Some w \<Rightarrow>
          (case EncodeData c methodName args of
             Inl err \<Rightarrow> (Inl err, [])
           | Inr data \<Rightarrow>
               (case SendTx G w (Contract_Address c) (Some 0) data opts of
                  (Inl err, tr) \<Rightarrow> (Inl err, tr)
                | (Inr txHash, tr) \<Rightarrow> (Inr txHash, tr))))"

subsection \<open>DecodeData\<close>

text \<open>
  \<open>DecodeData\<close> has three named results: the method name (empty until a method is
  found), the parameter map (nil, here \<open>None\<close>, until it is made) and the error.
  \<open>Arguments.UnpackIntoMap\<close> is go-ethereum's: it writes into the map it is given and
  returns an error; the model passes the map in and gets the map back.
\<close>

definition DecodeData ::
  "('args \<Rightarrow> (string \<rightharpoonup> 'v) \<Rightarrow> bytes \<Rightarrow> (string \<rightharpoonup> 'v) \<times> error option) \<Rightarrow>
     ('k, 'v, 'args) Contract \<Rightarrow> bytes \<Rightarrow> string \<times> (string \<rightharpoonup> 'v) option \<times> error option" where
  "DecodeData UnpackIntoMap c data =
     (if length data < 4 then ([], None, Some ErrDataTooShort)
      else
        (case MethodById (ABI c) (take 4 data) of
           Inl err \<Rightarrow> ([], None, Some err)
         | Inr method \<Rightarrow>
             (let methodName = Name method;
                  params = Map.empty
              in case UnpackIntoMap (Inputs method) params (drop 4 data) of
                   (params, err) \<Rightarrow> (methodName, Some params, err))))"

subsection \<open>DecodeFromMethod\<close>



section \<open>Signatures: signer.go and the helpers of the package\<close>

text \<open>
  The cryptography is go-ethereum's: \<open>crypto.Keccak256\<close>, \<open>crypto.Ecrecover\<close>,
  \<open>crypto.Sign\<close>, \<open>crypto.FromECDSAPub\<close> and \<open>crypto.PubkeyToAddress\<close> (both applied
  to the public key of a private key \<open>'k\<close>), \<open>crypto.HexToECDSA\<close>,
  \<open>accounts.TextHash\<close> and \<open>common.BytesToAddress\<close>.
\<close>

record 'k crypto =
  Keccak256 :: "bytes \<Rightarrow> bytes"
  crypto_Ecrecover :: "bytes \<Rightarrow> bytes \<Rightarrow> error + bytes"
  crypto_Sign :: "bytes \<Rightarrow> 'k \<Rightarrow> error + bytes"
  FromECDSAPub :: "'k \<Rightarrow> bytes"
  PubkeyToAddress :: "'k \<Rightarrow> address"
  HexToECDSA :: "string \<Rightarrow> error + 'k"
  TextHash :: "bytes \<Rightarrow> bytes"
  BytesToAddress :: "bytes \<Rightarrow> address"

definition NewSigner :: "'k crypto \<Rightarrow> string \<Rightarrow> error + 'k Signer" where
  "NewSigner K prvHex =
     (case HexToECDSA K prvHex of
        Inl err \<Rightarrow> Inl err
      | Inr k \<Rightarrow> Inr \<lparr>Signer_Address = PubkeyToAddress K k, key = k\<rparr>)"

definition GetPublicKey :: "'k crypto \<Rightarrow> 'k Signer \<Rightarrow> bytes" where
  "GetPublicKey K s = FromECDSAPub K (key s)"

text \<open>
  \<open>SignMsg\<close> returns the signature and the error. \<open>sig[64] += 27\<close> is byte arithmetic
  and panics on a signature shorter than 65 bytes.
\<close>

definition SignMsg :: "'k crypto \<Rightarrow> 'k Signer \<Rightarrow> bytes \<Rightarrow> (bytes \<times> error option) outcome" where
  "SignMsg K s msg =
     (let hash = TextHash K msg in
      case crypto_Sign K hash (key s) of
        Inl err \<Rightarrow> Returns ([], Some err)
      | Inr sig \<Rightarrow>
          (if length sig \<le> 64 then Panics
           else Returns (sig[64 := sig ! 64 + 27], None)))"

subsection \<open>Ecrecover\<close>

text \<open>
  \<open>Ecrecover\<close> has three named results: the public key (nil until recovered), the
  address (the zero address until derived) and the error. It works on a copy of the
  signature. \<open>publicBy[1:]\<close> and \<open>Keccak256(...)[12:]\<close> panic on a shorter slice.
\<close>

definition zero_address :: address where
  "zero_address = replicate 20 0"

text \<open>
  The last lines of \<open>Ecrecover\<close>, from the return of \<open>crypto.Ecrecover\<close> on:
  the error wrapped, or the address derived from the recovered public key.
\<close>

definition recovered ::
  "'k crypto \<Rightarrow> error + bytes \<Rightarrow> (bytes \<times> address \<times> error option) outcome" where
  "recovered K r =
     (case r of
        Inl err \<Rightarrow> Returns ([], zero_address, Some (ErrCanNotEcrecover err))
      | Inr publicBy \<Rightarrow>
          (if length publicBy < 1 then Panics
           else
             (let digest = Keccak256 K (drop 1 publicBy) in
              if length digest < 12 then Panics
              else Returns (publicBy, BytesToAddress K (drop 12 digest), None))))"

definition Ecrecover ::
  "'k crypto \<Rightarrow> bytes \<Rightarrow> bytes \<Rightarrow> (bytes \<times> address \<times> error option) outcome" where
  "Ecrecover K hash signature =
     (let sig = signature in
      if length sig \<noteq> 65 then
        Returns ([], zero_address, Some (ErrInvalidSigLength (length sig)))
      else if sig ! 64 \<noteq> 27 \<and> sig ! 64 \<noteq> 28 \<and> sig ! 64 \<noteq> 1 \<and> sig ! 64 \<noteq> 0 then
        Returns ([], zero_address, Some ErrInvalidSigType)
      else
        (let sig = (if sig ! 64 \<ge> 27 then sig[64 := sig ! 64 - 27] else sig)
         in recovered K (crypto_Ecrecover K hash sig)))"

subsection \<open>EIP712Hash\<close>

text \<open>
  The fragment of \<open>fmt.Sprintf\<close> the package uses: a format of literal bytes and
  \<open>%s\<close> verbs (\<open>0x25 0x73\<close>) over string operands. A literal byte is copied, a
  \<open>%s\<close> is replaced by the bytes of the next operand as they are. Anything else
  (another verb, a missing or a surplus operand) is outside the fragment: \<open>None\<close>.
\<close>

fun Sprintf :: "bytes \<Rightarrow> bytes list \<Rightarrow> bytes option" where
  "Sprintf [] [] = Some []"
| "Sprintf [] (a # as) = None"
| "Sprintf (c # fmt) as =
     (if c = 0x25 then
        (case fmt of
           [] \<Rightarrow> None
         | v # rest \<Rightarrow>
             (if v = 0x73 then
                (case as of
                   [] \<Rightarrow> None
                 | a # as' \<Rightarrow> map_option ((@) a) (Sprintf rest as'))
              else None))
      else map_option ((#) c) (Sprintf fmt as))"

text \<open>
  \<open>apitypes.TypedData\<close> with the fields the package reads, and the two library
  methods it calls: \<open>TypedData.HashStruct\<close> and \<open>TypedDataDomain.Map\<close>.
\<close>

record ('types, 'dom, 'msg) TypedData =
  Types :: 'types
  PrimaryType :: string
  Domain :: 'dom
  Message :: 'msg

record ('types, 'dom, 'msg) apitypes =
  HashStruct :: "('types, 'dom, 'msg) TypedData \<Rightarrow> string \<Rightarrow> 'msg \<Rightarrow> error + bytes"
  Domain_Map :: "'dom \<Rightarrow> 'msg"

text \<open>
  \<open>EIP712Hash\<close>: the format is \<open>"\x19\x01%s%s"\<close>, the operands are the two struct
  hashes converted to strings. The call stays inside the fragment of \<open>Sprintf\<close>
  above (lemma \<open>Sprintf_two_operands\<close>), so \<open>the\<close> reads a defined value.
\<close>

definition EIP712Hash ::
  "('types, 'dom, 'msg) apitypes \<Rightarrow> 'k crypto \<Rightarrow> ('types, 'dom, 'msg) TypedData \<Rightarrow>
     error + bytes" where
  "EIP712Hash A K typedData =
     (case HashStruct A typedData ''EIP712Domain'' (Domain_Map A (Domain typedData)) of
        Inl err \<Rightarrow> Inl err
      | Inr domainSeparator \<Rightarrow>
          (case HashStruct A typedData (PrimaryType typedData) (Message typedData) of
             Inl err \<Rightarrow> Inl err
           | Inr typedDataHash \<Rightarrow>
               (let rawData = the (Sprintf [0x19, 0x01, 0x25, 0x73, 0x25, 0x73]
                                     [domainSeparator, typedDataHash])
                in Inr (Keccak256 K rawData))))"

section \<open>Example collaborators\<close>

text \<open>
  Stand-ins for the collaborators, to run the functions on concrete inputs: a node that
  answers nonce 7, gas estimate 21000 and gas price 20; library functions that return
  fixed strings and sign by returning the transaction; a toy signature scheme in which
  a key is its own public part (it satisfies the format of \<open>crypto.Sign\<close> and is
  inverted by its recovery function, and has no other merit); an ABI with one method,
  an unpacking into a map that stores one value, and a hex decoder that knows two strings.
\<close>

definition node_stub :: EthRPC where
  "node_stub =
     \<lparr>EthGetTransactionCount = (\<lambda>addr tag. Inr 7),
      EthEstimateGas = (\<lambda>t. Inr 21000),
      EthGasPrice = Inr 20,
      EthSendRawTransaction = (\<lambda>raw. Inr ''0xhash'')\<rparr>"

definition geth_stub :: "(bytes, DynamicFeeTx) geth" where
  "geth_stub =
     \<lparr>Address_String = (\<lambda>a. ''0xaddr''),
      hexutil_Encode = (\<lambda>b. ''0xdata''),
      SignNewTx = (\<lambda>k chainID tx. Inr tx),
      MarshalBinary = (\<lambda>tx. Inr [2])\<rparr>"

definition crypto_stub :: "bytes crypto" where
  "crypto_stub =
     \<lparr>Keccak256 = (\<lambda>b. take 32 (b @ replicate 32 0)),
      crypto_Ecrecover = (\<lambda>hash sig. Inr (4 # butlast sig)),
      crypto_Sign = (\<lambda>hash k. Inr (k @ [0])),
      FromECDSAPub = (\<lambda>k. 4 # k),
      PubkeyToAddress = (\<lambda>k. drop 12 (take 32 (k @ replicate 32 0))),
      HexToECDSA = (\<lambda>prvHex. Inr (replicate 64 1)),
      TextHash = (\<lambda>msg. take 32 (msg @ replicate 32 0)),
      BytesToAddress = (\<lambda>b. b)\<rparr>"

definition signer_stub :: "bytes Signer" where
  "signer_stub = \<lparr>Signer_Address = replicate 20 1, key = replicate 64 1\<rparr>"

definition wallet_stub :: "bytes Wallet" where
  "wallet_stub =
     \<lparr>Address = replicate 20 1, ChainID = Some 1, Signer = signer_stub, Client = node_stub\<rparr>"

definition abi_stub :: "(nat, unit) ABI" where
  "abi_stub =
     \<lparr>Pack = (\<lambda>name args. Inr [0xa9, 0x05, 0x9c, 0xbb]),
      MethodById = (\<lambda>id. if id = [0xa9, 0x05, 0x9c, 0xbb]
                          then Inr \<lparr>Name = ''transfer'', Inputs = ()\<rparr>
                          else Inl (ExternalError ''no method with id'')),
      Unpack = (\<lambda>name data. ([], None)),
      UnpackIntoInterface = (\<lambda>v name data. (v, None))\<rparr>"

definition contract_stub :: "(bytes, nat, unit) Contract" where
  "contract_stub =
     \<lparr>Contract_Address = [0xc0], ABI = abi_stub, Wallet = Some wallet_stub,
      Contract_Client = Some node_stub\<rparr>"

definition apitypes_stub :: "(unit, unit, unit) apitypes" where
  "apitypes_stub =
     \<lparr>HashStruct = (\<lambda>td name msg. if name = ''EIP712Domain'' then Inr [0x25, 0x73]
                                   else Inr [0x25, 0x25]),
      Domain_Map = (\<lambda>d. ())\<rparr>"

definition unpack_stub ::
  "unit \<Rightarrow> (string \<rightharpoonup> nat) \<Rightarrow> bytes \<Rightarrow> (string \<rightharpoonup> nat) \<times> error option" where
  "unpack_stub args m d =
     (if d = [] then (m, Some (ExternalError ''abi: attempting to unmarshal an empty string''))
      else (m(''wad'' \<mapsto> 100), None))"


lemmas stub_defs =
  node_stub_def geth_stub_def crypto_stub_def signer_stub_def wallet_stub_def
  abi_stub_def contract_stub_def apitypes_stub_def

section \<open>Resolution of the options\<close>

lemmas init_defs =
  InitTxOpts_def init_Nonce_def init_GasLimit_def init_GasPrice_def init_Caps_def
  GetPendingNonce_def GetAddress_def TxOpts_zero_def

text \<open>After a successful resolution every field is set, so \<open>SendTx\<close> reads no nil.\<close>

lemma InitTxOpts_all_set:
  assumes "InitTxOpts G w to amount data opts0 = (final, None, tr)"
  shows "Nonce final \<noteq> None \<and> GasLimit final \<noteq> None \<and> GasPrice final \<noteq> None \<and>
         GasTipCap final \<noteq> None \<and> GasFeeCap final \<noteq> None"
  using assms
  by (auto simp: init_defs Let_def split: if_splits sum.splits prod.splits option.splits)




text \<open>
  Claim C2, as the code has it. After a successful resolution of options in which
  \<open>GasTipCap\<close> or \<open>GasFeeCap\<close> (or both) is unset, both are set and equal to the
  resolved gas price: the caller's \<open>GasPrice\<close> if set, otherwise the price the node
  answered. When both were set, both are left as they were.
\<close>

theorem InitTxOpts_caps_default:
  assumes "InitTxOpts G w to amount data opts0 = (final, None, tr)"
      and "opts = (case opts0 of None \<Rightarrow> TxOpts_zero | Some p \<Rightarrow> p)"
  shows "(GasTipCap opts = None \<or> GasFeeCap opts = None \<longrightarrow>
            GasPrice final \<noteq> None \<and>
            GasTipCap final = GasPrice final \<and> GasFeeCap final = GasPrice final \<and>
            GasPrice final =
              (case GasPrice opts of
                 Some p \<Rightarrow> Some p
               | None \<Rightarrow> (case EthGasPrice (Client w) of Inr p \<Rightarrow> Some p | Inl e \<Rightarrow> None))) \<and>
         (GasTipCap opts \<noteq> None \<and> GasFeeCap opts \<noteq> None \<longrightarrow>
            GasTipCap final = GasTipCap opts \<and> GasFeeCap final = GasFeeCap opts)"
  using assms
  by (auto simp: init_defs Let_def split: if_splits sum.splits prod.splits option.splits)

text \<open>Nil options against the example node: both caps become the node's price, 20.\<close>

theorem InitTxOpts_caps_default_witness:
  "InitTxOpts geth_stub wallet_stub [0xc0] (Some 5) [] None =
   (\<lparr>Nonce = Some 7, GasLimit = Some 21000, GasPrice = Some 20,
     GasTipCap = Some 20, GasFeeCap = Some 20\<rparr>, None,
    [EvGetTransactionCount ''0xaddr'' ''pending'',
     EvEstimateGas \<lparr>T_From = ''0xaddr'', T_To = ''0xaddr'', T_Gas = 0, T_GasPrice = None,
                    T_Value = Some 5, T_Data = ''0xdata'', T_Nonce = 0\<rparr>,
     EvGasPrice]) \<and>
   EthGasPrice (Client wallet_stub) = Inr 20"
proof -
  have run: "InitTxOpts geth_stub wallet_stub [0xc0] (Some 5) [] None =
   (\<lparr>Nonce = Some 7, GasLimit = Some 21000, GasPrice = Some 20,
     GasTipCap = Some 20, GasFeeCap = Some 20\<rparr>, None,
    [EvGetTransactionCount ''0xaddr'' ''pending'',
     EvEstimateGas \<lparr>T_From = ''0xaddr'', T_To = ''0xaddr'', T_Gas = 0, T_GasPrice = None,
                    T_Value = Some 5, T_Data = ''0xdata'', T_Nonce = 0\<rparr>,
     EvGasPrice])"
    by (simp add: init_defs stub_defs)
  from InitTxOpts_caps_default [OF run refl] run show ?thesis
    by (simp add: stub_defs)
qed

text \<open>
  Claim C2 as stated fails in its last part: with \<open>GasTipCap\<close> set to 2 and only
  \<open>GasFeeCap\<close> unset, the defaulting is applied all the same and the tip cap becomes
  the gas price, 20.
\<close>

theorem InitTxOpts_defaults_with_one_cap_set:
  "InitTxOpts geth_stub wallet_stub [0xc0] None []
     (Some \<lparr>Nonce = Some 1, GasLimit = Some 21000, GasPrice = Some 20,
            GasTipCap = Some 2, GasFeeCap = None\<rparr>) =
   (\<lparr>Nonce = Some 1, GasLimit = Some 21000, GasPrice = Some 20,
     GasTipCap = Some 20, GasFeeCap = Some 20\<rparr>, None, [])"
  by (simp add: init_defs stub_defs)

section \<open>The fee helpers\<close>

text \<open>
  Claim C4. With \<open>GasPrice\<close> and \<open>GasLimit\<close> both set, \<open>GetOldFee\<close> returns exactly
  their product and no error; with either unset it returns the error and no value; and
  a price of 20e9 with a limit of 21000 gives exactly 420,000,000,000,000.
\<close>

theorem GetOldFee_product:
  "(GasPrice t = Some p \<and> GasLimit t = Some l \<longrightarrow> GetOldFee t = Inr (p * sint l)) \<and>
   (GasPrice t = None \<or> GasLimit t = None \<longrightarrow> GetOldFee t = Inl ErrParamsUnset) \<and>
   (GasPrice t = Some 20000000000 \<and> GasLimit t = Some 21000 \<longrightarrow>
      GetOldFee t = Inr 420000000000000)"
  by (auto simp: GetOldFee_def)

theorem GetOldFee_product_witness:
  "GetOldFee \<lparr>Nonce = None, GasLimit = Some 21000, GasPrice = Some 20000000000,
              GasTipCap = None, GasFeeCap = None\<rparr> = Inr 420000000000000 \<and>
   GetOldFee \<lparr>Nonce = None, GasLimit = Some 21000, GasPrice = None,
              GasTipCap = Some 2, GasFeeCap = Some 30\<rparr> = Inl ErrParamsUnset"
  using GetOldFee_product
    [of "\<lparr>Nonce = None, GasLimit = Some 21000, GasPrice = Some 20000000000,
          GasTipCap = None, GasFeeCap = None\<rparr>" 20000000000 21000]
    GetOldFee_product
    [of "\<lparr>Nonce = None, GasLimit = Some 21000, GasPrice = None,
          GasTipCap = Some 2, GasFeeCap = Some 30\<rparr>"]
  by simp

text \<open>
  Claim C3. With \<open>GasTipCap\<close>, \<open>GasFeeCap\<close> and \<open>GasLimit\<close> all set, \<open>GetNewFee\<close>
  returns exactly \<open>(2 * GasTipCap + GasFeeCap) * GasLimit\<close> and no error; with any of the
  three unset it returns the error and no value.
\<close>

theorem GetNewFee_formula:
  "(GasTipCap t = Some tip \<and> GasFeeCap t = Some cap \<and> GasLimit t = Some l \<longrightarrow>
      GetNewFee t = Inr ((2 * tip + cap) * sint l)) \<and>
   (GasTipCap t = None \<or> GasFeeCap t = None \<or> GasLimit t = None \<longrightarrow>
      GetNewFee t = Inl ErrParamsUnset)"
  by (auto simp: GetNewFee_def)

theorem GetNewFee_formula_witness:
  "GetNewFee \<lparr>Nonce = None, GasLimit = Some 21000, GasPrice = None,
              GasTipCap = Some 2, GasFeeCap = Some 30\<rparr> = Inr 714000 \<and>
   GetNewFee \<lparr>Nonce = None, GasLimit = Some 21000, GasPrice = Some 20,
              GasTipCap = Some 2, GasFeeCap = None\<rparr> = Inl ErrParamsUnset"
  using GetNewFee_formula
    [of "\<lparr>Nonce = None, GasLimit = Some 21000, GasPrice = None,
          GasTipCap = Some 2, GasFeeCap = Some 30\<rparr>" 2 30 21000]
    GetNewFee_formula
    [of "\<lparr>Nonce = None, GasLimit = Some 21000, GasPrice = Some 20,
          GasTipCap = Some 2, GasFeeCap = None\<rparr>"]
  by simp

section \<open>Executing a contract method\<close>

text \<open>What the events of a resolution and of \<open>SendTx\<close> can be, and what they carry.\<close>

lemma InitTxOpts_events:
  assumes "InitTxOpts G w to amount data opts0 = (final, err, tr)" and "ev \<in> set tr"
  shows "(\<exists>a t. ev = EvGetTransactionCount a t) \<or>
         (\<exists>t. ev = EvEstimateGas t \<and> T_Value t = amount) \<or>
         ev = EvGasPrice"
  using assms
  by (auto simp: init_defs Let_def split: if_splits sum.splits prod.splits option.splits)

lemma SendTx_events:
  assumes "ev \<in> set (snd (SendTx G w to amount data opts0))"
  shows "(\<exists>a t. ev = EvGetTransactionCount a t) \<or>
         (\<exists>t. ev = EvEstimateGas t \<and> T_Value t = amount) \<or>
         ev = EvGasPrice \<or>
         (\<exists>tx. ev = EvSignNewTx (ChainID w) tx \<and> tx_To tx = Some to \<and> tx_Data tx = data \<and>
               tx_Value tx = (if amount = None then Some 0 else amount)) \<or>
         (\<exists>tx stx raw. ev = EvSendRawTransaction (hexutil_Encode G raw) \<and>
               tx_To tx = Some to \<and> tx_Data tx = data \<and>
               tx_Value tx = (if amount = None then Some 0 else amount) \<and>
               SignNewTx G (key (Signer w)) (ChainID w) tx = Inr stx \<and>
               MarshalBinary G stx = Inr raw)"
proof -
  obtain final err tr where i: "InitTxOpts G w to amount data opts0 = (final, err, tr)"
    by (cases "InitTxOpts G w to amount data opts0") auto
  show ?thesis
  proof (cases "ev \<in> set tr")
    case True
    with i show ?thesis using InitTxOpts_events by blast
  next
    case False
    with assms i show ?thesis
      by (auto simp: SendTx_def SignTx_def Let_def
               split: option.splits sum.splits prod.splits if_splits)
  qed
qed

lemma SendTx_success_sends:
  assumes "fst (SendTx G w to amount data opts0) = Inr txHash"
  shows "\<exists>raw. EvSendRawTransaction raw \<in> set (snd (SendTx G w to amount data opts0))"
  using assms
  by (auto simp: SendTx_def SignTx_def Let_def
           split: option.splits sum.splits prod.splits if_splits)

lemma ExecMethod_trace:
  assumes "ev \<in> set (snd (ExecMethod G c methodName opts args))"
  shows "\<exists>w data. Wallet c = Some w \<and> Pack (ABI c) methodName args = Inr data \<and>
           ev \<in> set (snd (SendTx G w (Contract_Address c) (Some 0) data opts))"
  using assms
  by (auto simp: ExecMethod_def EncodeData_def split: option.splits sum.splits prod.splits)

lemma ExecMethod_success:
  assumes "fst (ExecMethod G c methodName opts args) = Inr txHash"
  shows "\<exists>w data. Wallet c = Some w \<and> Pack (ABI c) methodName args = Inr data \<and>
           ExecMethod G c methodName opts args = SendTx G w (Contract_Address c) (Some 0) data opts"
  using assms
  by (auto simp: ExecMethod_def EncodeData_def split: option.splits sum.splits prod.splits)

text \<open>
  Claim C10. A contract without a wallet fails with the wallet error and makes no RPC
  call and no signature. Otherwise, for every method name, options and arguments: every
  transaction handed to the signing primitive has the value zero and the contract as
  its recipient, every gas estimate is asked for the value zero, everything broadcast
  is the encoding of a signed transaction whose value is zero, and a call that returns
  a transaction hash has broadcast one.
\<close>

theorem ExecMethod_zero_value:
  "(Wallet c = None \<longrightarrow> ExecMethod G c methodName opts args = (Inl ErrWalletNil, [])) \<and>
   (\<forall>chainID tx. EvSignNewTx chainID tx \<in> set (snd (ExecMethod G c methodName opts args)) \<longrightarrow>
      tx_Value tx = Some 0 \<and> tx_To tx = Some (Contract_Address c)) \<and>
   (\<forall>t. EvEstimateGas t \<in> set (snd (ExecMethod G c methodName opts args)) \<longrightarrow>
      T_Value t = Some 0) \<and>
   (\<forall>sent. EvSendRawTransaction sent \<in> set (snd (ExecMethod G c methodName opts args)) \<longrightarrow>
      (\<exists>w tx stx raw. Wallet c = Some w \<and> tx_Value tx = Some 0 \<and>
         tx_To tx = Some (Contract_Address c) \<and>
         SignNewTx G (key (Signer w)) (ChainID w) tx = Inr stx \<and>
         MarshalBinary G stx = Inr raw \<and> sent = hexutil_Encode G raw)) \<and>
   (\<forall>txHash. fst (ExecMethod G c methodName opts args) = Inr txHash \<longrightarrow>
      (\<exists>sent. EvSendRawTransaction sent \<in> set (snd (ExecMethod G c methodName opts args))))"
proof -
  have nil: "Wallet c = None \<longrightarrow> ExecMethod G c methodName opts args = (Inl ErrWalletNil, [])"
    by (simp add: ExecMethod_def)
  have sign: "tx_Value tx = Some 0 \<and> tx_To tx = Some (Contract_Address c)"
    if "EvSignNewTx chainID tx \<in> set (snd (ExecMethod G c methodName opts args))"
    for chainID tx
  proof -
    from that obtain w data where
      "EvSignNewTx chainID tx \<in> set (snd (SendTx G w (Contract_Address c) (Some 0) data opts))"
      using ExecMethod_trace by blast
    from SendTx_events [OF this] show ?thesis by auto
  qed
  have estimate: "T_Value t = Some 0"
    if "EvEstimateGas t \<in> set (snd (ExecMethod G c methodName opts args))" for t
  proof -
    from that obtain w data where
      "EvEstimateGas t \<in> set (snd (SendTx G w (Contract_Address c) (Some 0) data opts))"
      using ExecMethod_trace by blast
    from SendTx_events [OF this] show ?thesis by auto
  qed
  have send: "\<exists>w tx stx raw. Wallet c = Some w \<and> tx_Value tx = Some 0 \<and>
         tx_To tx = Some (Contract_Address c) \<and>
         SignNewTx G (key (Signer w)) (ChainID w) tx = Inr stx \<and>
         MarshalBinary G stx = Inr raw \<and> sent = hexutil_Encode G raw"
    if "EvSendRawTransaction sent \<in> set (snd (ExecMethod G c methodName opts args))" for sent
  proof -
    from that obtain w data where w: "Wallet c = Some w" and
      "EvSendRawTransaction sent \<in> set (snd (SendTx G w (Contract_Address c) (Some 0) data opts))"
      using ExecMethod_trace by blast
    from SendTx_events [OF this(2)] w show ?thesis by auto
  qed
  have success: "\<exists>sent. EvSendRawTransaction sent \<in> set (snd (ExecMethod G c methodName opts args))"
    if ok: "fst (ExecMethod G c methodName opts args) = Inr txHash" for txHash
  proof -
    from ok obtain w data where
      e: "ExecMethod G c methodName opts args = SendTx G w (Contract_Address c) (Some 0) data opts"
      using ExecMethod_success by blast
    with ok SendTx_success_sends [of G w "Contract_Address c" "Some 0" data opts txHash]
    show ?thesis by simp
  qed
  from nil sign estimate send success show ?thesis by blast
qed

text \<open>A contract that \<open>NewContract\<close> returned has a wallet.\<close>

lemma NewContract_has_wallet:
  "NewContract abi_JSON address abiStr rpc wallet = Returns (Inr c) \<Longrightarrow> Wallet c \<noteq> None"
  by (auto simp: NewContract_def split: option.splits sum.splits)

text \<open>A run against the example collaborators.\<close>

lemma ExecMethod_run:
  "ExecMethod geth_stub contract_stub ''transfer'' None [5, 100] =
     (Inr ''0xhash'',
      [EvGetTransactionCount ''0xaddr'' ''pending'',
       EvEstimateGas \<lparr>T_From = ''0xaddr'', T_To = ''0xaddr'', T_Gas = 0, T_GasPrice = None,
                      T_Value = Some 0, T_Data = ''0xdata'', T_Nonce = 0\<rparr>,
       EvGasPrice,
       EvSignNewTx (Some 1)
         \<lparr>tx_Nonce = 7, tx_GasTipCap = Some 20, tx_GasFeeCap = Some 20, tx_Gas = 21000,
          tx_To = Some [0xc0], tx_Value = Some 0, tx_Data = [0xa9, 0x05, 0x9c, 0xbb]\<rparr>,
       EvSendRawTransaction ''0xdata''])"
  by (simp add: ExecMethod_def EncodeData_def SendTx_def SignTx_def Let_def init_defs stub_defs)

theorem ExecMethod_zero_value_witness:
  "ExecMethod geth_stub (contract_stub\<lparr>Wallet := None\<rparr>) ''transfer'' None [5, 100] =
     (Inl ErrWalletNil, []) \<and>
   fst (ExecMethod geth_stub contract_stub ''transfer'' None [5, 100]) = Inr ''0xhash'' \<and>
   EvSignNewTx (Some 1)
     \<lparr>tx_Nonce = 7, tx_GasTipCap = Some 20, tx_GasFeeCap = Some 20, tx_Gas = 21000,
      tx_To = Some [0xc0], tx_Value = Some 0, tx_Data = [0xa9, 0x05, 0x9c, 0xbb]\<rparr>
     \<in> set (snd (ExecMethod geth_stub contract_stub ''transfer'' None [5, 100])) \<and>
   (\<exists>sent. EvSendRawTransaction sent \<in>
      set (snd (ExecMethod geth_stub contract_stub ''transfer'' None [5, 100])))"
  using ExecMethod_zero_value
          [of "contract_stub\<lparr>Wallet := None\<rparr>" geth_stub "''transfer''" None "[5, 100]"]
        ExecMethod_zero_value [of contract_stub geth_stub "''transfer''" None "[5, 100]"]
  by (simp add: ExecMethod_run)

section \<open>Signatures\<close>

lemma byte_cmp:
  "\<not> (27::byte) \<le> 1" "\<not> (27::byte) \<le> 0" "(27::byte) \<le> 28" "(28::byte) - 27 = 1"
  "(0::byte) + 27 = 27" "(1::byte) + 27 = 28"
  by (simp_all add: word_le_nat_alt)

text \<open>
  Past its two checks, \<open>Ecrecover\<close> calls the primitive once, on the signature whose
  last byte is lowered by 27 when it is 27 or more.
\<close>

lemma Ecrecover_checked:
  assumes "length sig = 65" and "v = sig ! 64" and "v = 0 \<or> v = 1 \<or> v = 27 \<or> v = 28"
  shows "Ecrecover K hash sig =
     recovered K (crypto_Ecrecover K hash (if v \<ge> 27 then sig[64 := v - 27] else sig))"
proof -
  from assms(3) consider "v = 0" | "v = 1" | "v = 27" | "v = 28" by blast
  then show ?thesis
  proof cases
    case 1
    then have "sig ! 64 = 0" using assms(2) by simp
    then show ?thesis using assms(1) 1 by (simp add: Ecrecover_def byte_cmp)
  next
    case 2
    then have "sig ! 64 = 1" using assms(2) by simp
    then show ?thesis using assms(1) 2 by (simp add: Ecrecover_def byte_cmp)
  next
    case 3
    then have "sig ! 64 = 27" using assms(2) by simp
    then show ?thesis using assms(1) 3 by (simp add: Ecrecover_def byte_cmp)
  next
    case 4
    then have "sig ! 64 = 28" using assms(2) by simp
    then show ?thesis using assms(1) 4 by (simp add: Ecrecover_def byte_cmp)
  qed
qed

text \<open>
  Claim C5. For every hash and every signature: a signature whose length is not 65, or
  whose byte 64 is none of 0, 1, 27, 28, makes \<open>Ecrecover\<close> return an error with no
  public key and the zero address beside it; the call returns (it does not panic) and
  the error is never nil there. A byte 64 of 27 or 28 is lowered to 0 or 1 in the
  signature handed to the recovery primitive; a byte 64 of 0 or 1 is handed on as it is.
\<close>

theorem Ecrecover_validates:
 "(length sig \<noteq> 65 \<longrightarrow>
     Ecrecover K hash sig = Returns ([], zero_address, Some (ErrInvalidSigLength (length sig)))) \<and>
  (length sig = 65 \<and> sig ! 64 \<notin> {0, 1, 27, 28} \<longrightarrow>
     Ecrecover K hash sig = Returns ([], zero_address, Some ErrInvalidSigType)) \<and>
  (length sig = 65 \<and> sig ! 64 \<in> {27, 28} \<longrightarrow>
     sig[64 := sig ! 64 - 27] ! 64 \<in> {0, 1} \<and>
     Ecrecover K hash sig = recovered K (crypto_Ecrecover K hash (sig[64 := sig ! 64 - 27]))) \<and>
  (length sig = 65 \<and> sig ! 64 \<in> {0, 1} \<longrightarrow>
     Ecrecover K hash sig = recovered K (crypto_Ecrecover K hash sig))"
proof -
  have short: "Ecrecover K hash sig =
                 Returns ([], zero_address, Some (ErrInvalidSigLength (length sig)))"
    if "length sig \<noteq> 65"
    using that by (simp add: Ecrecover_def)
  have type: "Ecrecover K hash sig = Returns ([], zero_address, Some ErrInvalidSigType)"
    if "length sig = 65 \<and> sig ! 64 \<notin> {0, 1, 27, 28}"
    using that by (simp add: Ecrecover_def)
  have eth: "sig[64 := sig ! 64 - 27] ! 64 \<in> {0, 1} \<and>
     Ecrecover K hash sig = recovered K (crypto_Ecrecover K hash (sig[64 := sig ! 64 - 27]))"
    if a: "length sig = 65 \<and> sig ! 64 \<in> {27, 28}"
  proof
    from a show "sig[64 := sig ! 64 - 27] ! 64 \<in> {0, 1}"
      by (auto simp: byte_cmp)
    from a have "sig ! 64 = 27 \<or> sig ! 64 = 28" by simp
    then show "Ecrecover K hash sig =
                 recovered K (crypto_Ecrecover K hash (sig[64 := sig ! 64 - 27]))"
      using a Ecrecover_checked [of sig "sig ! 64" K hash] by (auto simp: byte_cmp)
  qed
  have raw: "Ecrecover K hash sig = recovered K (crypto_Ecrecover K hash sig)"
    if a: "length sig = 65 \<and> sig ! 64 \<in> {0, 1}"
  proof -
    from a have "sig ! 64 = 0 \<or> sig ! 64 = 1" by simp
    then show ?thesis
      using a Ecrecover_checked [of sig "sig ! 64" K hash] by (auto simp: byte_cmp)
  qed
  from short type eth raw show ?thesis by blast
qed

text \<open>A 64-byte signature, a recovery byte of 5, of 28 and of 1.\<close>

theorem Ecrecover_validates_witness:
  "Ecrecover crypto_stub [] (replicate 64 0) =
     Returns ([], zero_address, Some (ErrInvalidSigLength 64)) \<and>
   Ecrecover crypto_stub [] (replicate 64 0 @ [5]) =
     Returns ([], zero_address, Some ErrInvalidSigType) \<and>
   Ecrecover crypto_stub [] (replicate 64 0 @ [28]) =
     recovered crypto_stub (crypto_Ecrecover crypto_stub [] (replicate 64 0 @ [1])) \<and>
   Ecrecover crypto_stub [] (replicate 64 0 @ [1]) =
     recovered crypto_stub (crypto_Ecrecover crypto_stub [] (replicate 64 0 @ [1]))"
  using Ecrecover_validates [of "replicate 64 0" crypto_stub "[]"]
        Ecrecover_validates [of "replicate 64 0 @ [5]" crypto_stub "[]"]
        Ecrecover_validates [of "replicate 64 0 @ [28]" crypto_stub "[]"]
        Ecrecover_validates [of "replicate 64 0 @ [1]" crypto_stub "[]"]
  by (simp add: nth_append list_update_append byte_cmp)

lemma SignMsg_ok:
  assumes "crypto_Sign K (TextHash K msg) (key s) = Inr sig" and "length sig = 65"
  shows "SignMsg K s msg = Returns (sig[64 := sig ! 64 + 27], None)"
  using assms by (simp add: SignMsg_def)

text \<open>
  Claim C6. The curve operations are go-ethereum's, so the claim is proved from their
  contract: \<open>crypto.Sign\<close> succeeds on the key of a signer made by \<open>NewSigner\<close> and
  returns 65 bytes \<open>R || S || V\<close> with \<open>V\<close> 0 or 1; \<open>crypto.Ecrecover\<close> on that
  signature and the same hash returns the signer's uncompressed public key (at least
  one byte; it is 65); a Keccak-256 digest has at least 12 bytes (it has 32);
  \<open>crypto.PubkeyToAddress\<close> is the last 20 bytes of the digest of the public key
  without its first byte. Then \<open>SignMsg\<close> returns a signature whose recovery byte is 27
  or 28, and \<open>Ecrecover\<close> on the personal-message hash and that signature returns the
  signer's public key and address, with no error.
\<close>

theorem SignMsg_Ecrecover:
  assumes signer: "NewSigner K prvHex = Inr s"
      and sign: "crypto_Sign K (TextHash K msg) (key s) = Inr sig"
      and format: "length sig = 65" "sig ! 64 \<in> {0, 1}"
      and recover: "crypto_Ecrecover K (TextHash K msg) sig = Inr (FromECDSAPub K (key s))"
      and pub: "1 \<le> length (FromECDSAPub K (key s))"
      and digest: "12 \<le> length (Keccak256 K (drop 1 (FromECDSAPub K (key s))))"
      and addr: "PubkeyToAddress K (key s) =
                   BytesToAddress K (drop 12 (Keccak256 K (drop 1 (FromECDSAPub K (key s)))))"
  shows "\<exists>sig'. SignMsg K s msg = Returns (sig', None) \<and>
           length sig' = 65 \<and> sig' ! 64 \<in> {27, 28} \<and>
           Ecrecover K (TextHash K msg) sig' =
             Returns (GetPublicKey K s, Signer_Address s, None)"
proof -
  let ?t = "sig[64 := sig ! 64 + 27]"
  have s1: "SignMsg K s msg = Returns (?t, None)"
    using sign format(1) by (rule SignMsg_ok)
  have len: "length ?t = 65" using format(1) by simp
  have v: "?t ! 64 = 27 \<or> ?t ! 64 = 28" using format by (auto simp: byte_cmp)
  have ge: "?t ! 64 \<ge> 27" using v by (auto simp: byte_cmp)
  have norm: "?t[64 := ?t ! 64 - 27] = sig"
    using format by (auto simp: list_update_same_conv)
  have "Ecrecover K (TextHash K msg) ?t =
          recovered K (crypto_Ecrecover K (TextHash K msg) (?t[64 := ?t ! 64 - 27]))"
    using Ecrecover_checked [of ?t "?t ! 64" K "TextHash K msg"] len v ge by auto
  also have "\<dots> = recovered K (Inr (FromECDSAPub K (key s)))"
    unfolding norm recover ..
  also have "\<dots> = Returns (FromECDSAPub K (key s), PubkeyToAddress K (key s), None)"
    using pub digest by (auto simp: recovered_def Let_def addr)
  also have "PubkeyToAddress K (key s) = Signer_Address s"
    using signer by (auto simp: NewSigner_def split: sum.splits)
  finally show ?thesis
    using s1 len v by (auto simp: GetPublicKey_def)
qed

text \<open>The toy scheme satisfies the contract; the message is \<open>"hi"\<close>.\<close>

theorem SignMsg_Ecrecover_witness:
  "\<exists>sig'. SignMsg crypto_stub signer_stub [0x68, 0x69] = Returns (sig', None) \<and>
           length sig' = 65 \<and> sig' ! 64 \<in> {27, 28} \<and>
           Ecrecover crypto_stub (TextHash crypto_stub [0x68, 0x69]) sig' =
             Returns (GetPublicKey crypto_stub signer_stub, Signer_Address signer_stub, None)"
  by (rule SignMsg_Ecrecover [of crypto_stub "''01''" signer_stub "[0x68, 0x69]" "replicate 64 1 @ [0]"])
     (simp_all add: stub_defs NewSigner_def nth_append)

section \<open>Typed data\<close>

text \<open>
  The format of \<open>EIP712Hash\<close> with two operands: the two literal bytes, then the
  operands as they are, whatever bytes they hold.
\<close>

lemma Sprintf_two_operands:
  "Sprintf [0x19, 0x01, 0x25, 0x73, 0x25, 0x73] [a, b] = Some ([0x19, 0x01] @ a @ b)"
  by simp

text \<open>
  Claim C7. When both struct hashes succeed, \<open>EIP712Hash\<close> returns exactly the
  Keccak-256 digest of the bytes \<open>0x19\<close>, \<open>0x01\<close>, the domain separator (the struct
  hash of \<open>EIP712Domain\<close> over the domain's map) and the message hash (the struct hash
  of the primary type over the message). When the first struct hash fails, or the first
  succeeds and the second fails, it returns that error and no hash.
\<close>

theorem EIP712Hash_envelope:
  "(HashStruct A td ''EIP712Domain'' (Domain_Map A (Domain td)) = Inr domainSeparator \<and>
    HashStruct A td (PrimaryType td) (Message td) = Inr messageHash \<longrightarrow>
      EIP712Hash A K td = Inr (Keccak256 K ([0x19, 0x01] @ domainSeparator @ messageHash))) \<and>
   (HashStruct A td ''EIP712Domain'' (Domain_Map A (Domain td)) = Inl e \<longrightarrow>
      EIP712Hash A K td = Inl e) \<and>
   (HashStruct A td ''EIP712Domain'' (Domain_Map A (Domain td)) = Inr domainSeparator \<and>
    HashStruct A td (PrimaryType td) (Message td) = Inl e \<longrightarrow>
      EIP712Hash A K td = Inl e)"
  unfolding EIP712Hash_def Let_def Sprintf_two_operands by simp

text \<open>
  Struct hashes that hold the bytes of \<open>%s\<close> and \<open>%%\<close> themselves, a library whose
  struct hash fails, and one whose second struct hash fails.
\<close>

theorem EIP712Hash_envelope_witness:
  "EIP712Hash apitypes_stub crypto_stub
     \<lparr>Types = (), PrimaryType = ''Mail'', Domain = (), Message = ()\<rparr> =
     Inr (Keccak256 crypto_stub [0x19, 0x01, 0x25, 0x73, 0x25, 0x25]) \<and>
   EIP712Hash \<lparr>HashStruct = (\<lambda>td name msg. Inl (ExternalError ''no such type'')),
               Domain_Map = (\<lambda>d. ())\<rparr> crypto_stub
     \<lparr>Types = (), PrimaryType = ''Mail'', Domain = (), Message = ()\<rparr> =
     Inl (ExternalError ''no such type'') \<and>
   EIP712Hash \<lparr>HashStruct = (\<lambda>td name msg. if name = ''EIP712Domain'' then Inr []
                                             else Inl (ExternalError ''no such type'')),
               Domain_Map = (\<lambda>d. ())\<rparr> crypto_stub
     \<lparr>Types = (), PrimaryType = ''Mail'', Domain = (), Message = ()\<rparr> =
     Inl (ExternalError ''no such type'')"
  using EIP712Hash_envelope
          [where A = apitypes_stub and K = crypto_stub
             and td = "\<lparr>Types = (), PrimaryType = ''Mail'', Domain = (), Message = ()\<rparr>"
             and domainSeparator = "[0x25, 0x73]" and messageHash = "[0x25, 0x25]"]
        EIP712Hash_envelope
          [where A = "\<lparr>HashStruct = (\<lambda>td name msg. Inl (ExternalError ''no such type'')),
                         Domain_Map = (\<lambda>d. ())\<rparr>" and K = crypto_stub
             and td = "\<lparr>Types = (), PrimaryType = ''Mail'', Domain = (), Message = ()\<rparr>"
             and e = "ExternalError ''no such type''"]
        EIP712Hash_envelope
          [where A = "\<lparr>HashStruct = (\<lambda>td name msg. if name = ''EIP712Domain'' then Inr []
                                             else Inl (ExternalError ''no such type'')),
                         Domain_Map = (\<lambda>d. ())\<rparr>" and K = crypto_stub
             and td = "\<lparr>Types = (), PrimaryType = ''Mail'', Domain = (), Message = ()\<rparr>"
             and domainSeparator = "[]" and e = "ExternalError ''no such type''"]
  by (simp add: apitypes_stub_def)

section \<open>Decoding\<close>

text \<open>
  Claim C8. For every byte sequence: with fewer than 4 bytes \<open>DecodeData\<close> fails with
  the too-short error, no name and no map. Otherwise the method is looked up by the
  first 4 bytes; when the lookup fails the call fails with its error; when it finds a
  method, the remaining bytes are unpacked against the method's inputs into a fresh
  map, and the call returns the method's name, that map and the error of the unpacking
  (nil on success).
\<close>

theorem DecodeData_selector:
 "(length data < 4 \<longrightarrow> DecodeData U c data = ([], None, Some ErrDataTooShort)) \<and>
  (4 \<le> length data \<and> MethodById (ABI c) (take 4 data) = Inl e \<longrightarrow>
     DecodeData U c data = ([], None, Some e)) \<and>
  (4 \<le> length data \<and> MethodById (ABI c) (take 4 data) = Inr m \<and>
   U (Inputs m) Map.empty (drop 4 data) = (params, err) \<longrightarrow>
     DecodeData U c data = (Name m, Some params, err))"
  by (simp add: DecodeData_def)

text \<open>Three bytes, an unknown selector, and a call of the example ABI's method.\<close>

theorem DecodeData_selector_witness:
  "DecodeData unpack_stub contract_stub [1, 2, 3] =
     ([], None, Some ErrDataTooShort) \<and>
   DecodeData unpack_stub contract_stub [0, 0, 0, 0, 9] =
     ([], None, Some (ExternalError ''no method with id'')) \<and>
   DecodeData unpack_stub contract_stub
       [0xa9, 0x05, 0x9c, 0xbb, 5, 6] =
     (''transfer'', Some [''wad'' \<mapsto> 100], None)"
  using DecodeData_selector
          [where data = "[1, 2, 3]" and c = contract_stub
             and U = unpack_stub]
        DecodeData_selector
          [where data = "[0, 0, 0, 0, 9]" and c = contract_stub
             and U = unpack_stub
             and e = "ExternalError ''no method with id''"]
        DecodeData_selector
          [where data = "[0xa9, 0x05, 0x9c, 0xbb, 5, 6]" and c = contract_stub
             and U = unpack_stub
             and m = "\<lparr>Name = ''transfer'', Inputs = ()\<rparr>"
             and params = "[''wad'' \<mapsto> 100]" and err = None]
  by (simp add: contract_stub_def abi_stub_def unpack_stub_def)



end
